theory Spec2Isabelle
  imports Main
begin

section \<open>The user record and the in-memory store (main.go)\<close>

text \<open>
  \<^verbatim>\<open>type User struct { ID, Name, Email string }\<close>
  A Go struct is a record; the zero value of the struct has every field empty.
\<close>

record User =
  ID :: string
  Name :: string
  Email :: string

definition zero_User :: User where
  "zero_User = \<lparr>ID = [], Name = [], Email = []\<rparr>"

text \<open>
  \<^verbatim>\<open>type UserStore struct { mu sync.RWMutex; users map[string]User }\<close>
  Every method takes the lock on entry and releases it on return, so a method body is
  atomic; the model is the sequential one, a method maps the store to the new store
  (and its results). The mutex itself is not part of the state.
\<close>

record UserStore =
  users :: "string \<rightharpoonup> User"

definition NewUserStore :: UserStore where
  "NewUserStore = \<lparr>users = Map.empty\<rparr>"

text \<open>\<^verbatim>\<open>s.users[user.ID] = user\<close>\<close>

definition Create :: "User \<Rightarrow> UserStore \<Rightarrow> UserStore" where
  "Create user s = s\<lparr>users := (users s)(ID user \<mapsto> user)\<rparr>"

text \<open>
  \<^verbatim>\<open>user, exists := s.users[id]; return user, exists\<close>
  A missing key reads as the zero value of the element type and \<open>false\<close>.
\<close>

definition Get :: "string \<Rightarrow> UserStore \<Rightarrow> User \<times> bool" where
  "Get uid s = (case users s uid of Some user \<Rightarrow> (user, True) | None \<Rightarrow> (zero_User, False))"

text \<open>
  \<^verbatim>\<open>if _, exists := s.users[user.ID]; exists { s.users[user.ID] = user; return true }
  return false\<close>
\<close>

definition Update :: "User \<Rightarrow> UserStore \<Rightarrow> bool \<times> UserStore" where
  "Update user s =
     (if users s (ID user) \<noteq> None
      then (True, s\<lparr>users := (users s)(ID user \<mapsto> user)\<rparr>)
      else (False, s))"

text \<open>
  \<^verbatim>\<open>if _, exists := s.users[id]; exists { delete(s.users, id); return true }
  return false\<close>
\<close>

definition Delete :: "string \<Rightarrow> UserStore \<Rightarrow> bool \<times> UserStore" where
  "Delete uid s =
     (if users s uid \<noteq> None
      then (True, s\<lparr>users := (users s)(uid := None)\<rparr>)
      else (False, s))"

text \<open>
  A Go slice is either \<open>nil\<close> or a sequence of elements; \<^verbatim>\<open>make([]User, 0, n)\<close> is the
  empty sequence that is not \<open>nil\<close>, and \<open>append\<close> never returns \<open>nil\<close> once an element
  is added. The capacity is not observable through the claims and is left out.
\<close>

datatype 'a slice = NilSlice | Slice "'a list"

definition make_slice :: "'a slice" where
  "make_slice = Slice []"

fun append_slice :: "'a slice \<Rightarrow> 'a \<Rightarrow> 'a slice" where
  "append_slice NilSlice x = Slice [x]"
| "append_slice (Slice xs) x = Slice (xs @ [x])"

fun elems :: "'a slice \<Rightarrow> 'a list" where
  "elems NilSlice = []"
| "elems (Slice xs) = xs"

text \<open>
  \<^verbatim>\<open>for _, user := range s.users\<close> visits every key of the map exactly once, in an order the
  language leaves open. The order of one iteration is the list \<open>ks\<close>; \<open>range_order\<close> says
  that \<open>ks\<close> is such an order for the map.
\<close>

definition range_order :: "string list \<Rightarrow> (string \<rightharpoonup> User) \<Rightarrow> bool" where
  "range_order ks m \<longleftrightarrow> distinct ks \<and> set ks = dom m"

text \<open>
  \<^verbatim>\<open>users := make([]User, 0, len(s.users))
  for _, user := range s.users { users = append(users, user) }
  return users\<close>
  The loop is a fold over the iteration order; a key outside the map is never visited.
\<close>

fun GetAll_loop :: "(string \<rightharpoonup> User) \<Rightarrow> string list \<Rightarrow> User slice \<Rightarrow> User slice" where
  "GetAll_loop m [] acc = acc"
| "GetAll_loop m (k # ks) acc =
     (case m k of
        Some user \<Rightarrow> GetAll_loop m ks (append_slice acc user)
      | None \<Rightarrow> GetAll_loop m ks acc)"

definition GetAll :: "string list \<Rightarrow> UserStore \<Rightarrow> User slice" where
  "GetAll ks s = GetAll_loop (users s) ks make_slice"

section \<open>The HTTP layer (main.go)\<close>

text \<open>
  The handlers use \<open>net/http\<close>, \<open>encoding/json\<close> and \<open>gorilla/mux\<close>, which are libraries
  outside this repository. What the handlers observe of them is modelled here:
  a request with its method, the path variables the router extracted and the body text;
  a response writer with the header map, the status line once written, the header
  as it was sent with the status line, and the payloads written after it.
\<close>

record Request =
  Method :: string
  Vars :: "string \<rightharpoonup> string"
  Body :: string

text \<open>
  A payload written to the response: the text of \<^verbatim>\<open>http.Error\<close>, or the JSON encoding of a
  value, kept as the value that was encoded.
\<close>

datatype payload =
    Text string
  | JsonUser User
  | JsonUsers "User slice"
  | JsonMap "(string \<times> string) list"

record ResponseWriter =
  header :: "string \<rightharpoonup> string"
  code :: "nat option"
  sent_header :: "string \<rightharpoonup> string"
  body :: "payload list"

definition new_ResponseWriter :: ResponseWriter where
  "new_ResponseWriter = \<lparr>header = Map.empty, code = None, sent_header = Map.empty, body = []\<rparr>"

abbreviation StatusOK :: nat where "StatusOK \<equiv> 200"
abbreviation StatusCreated :: nat where "StatusCreated \<equiv> 201"
abbreviation StatusNoContent :: nat where "StatusNoContent \<equiv> 204"
abbreviation StatusBadRequest :: nat where "StatusBadRequest \<equiv> 400"
abbreviation StatusNotFound :: nat where "StatusNotFound \<equiv> 404"

text \<open>\<^verbatim>\<open>w.Header().Set(k, v)\<close>\<close>

definition Header_Set :: "string \<Rightarrow> string \<Rightarrow> ResponseWriter \<Rightarrow> ResponseWriter" where
  "Header_Set k v w = w\<lparr>header := (header w)(k \<mapsto> v)\<rparr>"

text \<open>
  \<^verbatim>\<open>w.WriteHeader(c)\<close> sends the status line with the header map as it is at that moment;
  a second call changes nothing.
\<close>

definition WriteHeader :: "nat \<Rightarrow> ResponseWriter \<Rightarrow> ResponseWriter" where
  "WriteHeader c w =
     (if code w = None then w\<lparr>code := Some c, sent_header := header w\<rparr> else w)"

text \<open>\<^verbatim>\<open>w.Write(p)\<close> sends status 200 first when no status was written yet.\<close>

definition Write :: "payload \<Rightarrow> ResponseWriter \<Rightarrow> ResponseWriter" where
  "Write p w = (let w' = WriteHeader StatusOK w in w'\<lparr>body := body w' @ [p]\<rparr>)"

text \<open>
  \<^verbatim>\<open>http.Error(w, msg, c)\<close> sets the content type of a plain text reply, writes the status
  and prints the message followed by a newline.
\<close>

definition http_Error :: "string \<Rightarrow> nat \<Rightarrow> ResponseWriter \<Rightarrow> ResponseWriter" where
  "http_Error msg c w =
     Write (Text (msg @ [CHR 0x0A]))
       (WriteHeader c
         (Header_Set ''X-Content-Type-Options'' ''nosniff''
           (Header_Set ''Content-Type'' ''text/plain; charset=utf-8'' w)))"

text \<open>\<^verbatim>\<open>json.NewEncoder(w).Encode(v)\<close> writes the encoding of \<open>v\<close>.\<close>

definition Encode :: "payload \<Rightarrow> ResponseWriter \<Rightarrow> ResponseWriter" where
  "Encode v w = Write v w"

text \<open>
  The server completes a reply whose handler returned without writing a status.
\<close>

definition finish :: "ResponseWriter \<Rightarrow> ResponseWriter" where
  "finish w = WriteHeader StatusOK w"

text \<open>
  \<^verbatim>\<open>json.NewDecoder(r.Body).Decode(&user)\<close> reads the body into the struct it is given:
  it fails with an error text, or returns the struct with the fields that the body
  supplies overwritten and every other field as it was. The decoder is a parameter of
  the handlers that read a body.
\<close>

type_synonym decoder = "string \<Rightarrow> User \<Rightarrow> string + User"

type_synonym handler = "Request \<Rightarrow> ResponseWriter \<times> UserStore \<Rightarrow> ResponseWriter \<times> UserStore"

text \<open>\<^verbatim>\<open>vars := mux.Vars(r); id := vars["id"]\<close>: a missing key reads as the empty string.\<close>

definition path_id :: "Request \<Rightarrow> string" where
  "path_id r = (case Vars r ''id'' of Some v \<Rightarrow> v | None \<Rightarrow> [])"

text \<open>
  The global \<^verbatim>\<open>var store *UserStore\<close> is threaded through the handlers together with the
  response writer.
\<close>

definition corsMiddleware :: "handler \<Rightarrow> handler" where
  "corsMiddleware next r ws =
     (case ws of (w, store) \<Rightarrow>
        let w1 = Header_Set ''Access-Control-Allow-Origin'' ''*'' w;
            w2 = Header_Set ''Access-Control-Allow-Methods'' ''GET, POST, PUT, DELETE, OPTIONS'' w1;
            w3 = Header_Set ''Access-Control-Allow-Headers'' ''Content-Type, Authorization'' w2
        in if Method r = ''OPTIONS''
           then (WriteHeader StatusOK w3, store)
           else next r (w3, store))"

definition healthCheckHandler :: handler where
  "healthCheckHandler r ws =
     (case ws of (w, store) \<Rightarrow>
        (Encode (JsonMap [(''status'', ''healthy''), (''service'', ''user-service'')])
           (WriteHeader StatusOK w), store))"

definition createUserHandler :: "decoder \<Rightarrow> handler" where
  "createUserHandler dec r ws =
     (case ws of (w, store) \<Rightarrow>
        (case dec (Body r) zero_User of
           Inl err \<Rightarrow> (http_Error err StatusBadRequest w, store)
         | Inr user \<Rightarrow>
             if ID user = [] \<or> Name user = [] \<or> Email user = []
             then (http_Error ''ID, Name, and Email are required'' StatusBadRequest w, store)
             else (Encode (JsonUser user) (WriteHeader StatusCreated w), Create user store)))"

definition getUserHandler :: handler where
  "getUserHandler r ws =
     (case ws of (w, store) \<Rightarrow>
        (case Get (path_id r) store of
           (user, exists) \<Rightarrow>
             if \<not> exists then (http_Error ''User not found'' StatusNotFound w, store)
             else (Encode (JsonUser user) w, store)))"

text \<open>The handler of \<^verbatim>\<open>GET /users\<close>; \<open>ks\<close> is the order in which GetAll ranges over the map.\<close>

definition getAllUsersHandler :: "string list \<Rightarrow> handler" where
  "getAllUsersHandler ks r ws =
     (case ws of (w, store) \<Rightarrow> (Encode (JsonUsers (GetAll ks store)) w, store))"

definition updateUserHandler :: "decoder \<Rightarrow> handler" where
  "updateUserHandler dec r ws =
     (case ws of (w, store) \<Rightarrow>
        (case dec (Body r) zero_User of
           Inl err \<Rightarrow> (http_Error err StatusBadRequest w, store)
         | Inr decoded \<Rightarrow>
             let user = decoded\<lparr>ID := path_id r\<rparr> in
             (case Update user store of
                (ok, store') \<Rightarrow>
                  if \<not> ok then (http_Error ''User not found'' StatusNotFound w, store')
                  else (Encode (JsonUser user) w, store'))))"

definition deleteUserHandler :: handler where
  "deleteUserHandler r ws =
     (case ws of (w, store) \<Rightarrow>
        (case Delete (path_id r) store of
           (ok, store') \<Rightarrow>
             if \<not> ok then (http_Error ''User not found'' StatusNotFound w, store')
             else (WriteHeader StatusNoContent w, store')))"

text \<open>The store as \<^verbatim>\<open>main\<close> seeds it before the listener starts.\<close>

definition seeded_store :: UserStore where
  "seeded_store =
     Create \<lparr>ID = ''2'', Name = ''Jane Smith'', Email = ''jane@example.com''\<rparr>
       (Create \<lparr>ID = ''1'', Name = ''John Doe'', Email = ''john@example.com''\<rparr> NewUserStore)"

section \<open>Requests and a decoder for the examples\<close>

text \<open>
  A decoder for the examples: on the three bodies it knows it does what \<open>encoding/json\<close>
  does on them (an empty object leaves the struct as it is; a field that the object
  supplies is overwritten, a field it omits is kept); any other body is rejected.
\<close>

definition sample_Decode :: decoder where
  \<open>sample_Decode b t =
     (if b = ''{}'' then Inr t
      else if b = ''{"id":"3","name":"Alice Johnson","email":"alice@example.com"}''
        then Inr (t\<lparr>ID := ''3'', Name := ''Alice Johnson'', Email := ''alice@example.com''\<rparr>)
      else if b = ''{"id":"9","name":"Bob"}''
        then Inr (t\<lparr>ID := ''9'', Name := ''Bob''\<rparr>)
      else Inl ''invalid character'')\<close>

definition post_alice :: Request where
  \<open>post_alice = \<lparr>Method = ''POST'', Vars = Map.empty,
     Body = ''{"id":"3","name":"Alice Johnson","email":"alice@example.com"}''\<rparr>\<close>

definition post_bob :: Request where
  \<open>post_bob = \<lparr>Method = ''POST'', Vars = Map.empty, Body = ''{"id":"9","name":"Bob"}''\<rparr>\<close>

definition put_bob_1 :: Request where
  \<open>put_bob_1 = \<lparr>Method = ''PUT'', Vars = [''id'' \<mapsto> ''1''], Body = ''{"id":"9","name":"Bob"}''\<rparr>\<close>

definition put_bob_7 :: Request where
  \<open>put_bob_7 = \<lparr>Method = ''PUT'', Vars = [''id'' \<mapsto> ''7''], Body = ''{"id":"9","name":"Bob"}''\<rparr>\<close>

definition put_empty_1 :: Request where
  "put_empty_1 = \<lparr>Method = ''PUT'', Vars = [''id'' \<mapsto> ''1''], Body = ''{}''\<rparr>"

definition put_garbage_1 :: Request where
  "put_garbage_1 = \<lparr>Method = ''PUT'', Vars = [''id'' \<mapsto> ''1''], Body = ''{''\<rparr>"

definition options_users :: Request where
  "options_users = \<lparr>Method = ''OPTIONS'', Vars = Map.empty, Body = []\<rparr>"

section \<open>Notions used by the statements\<close>

text \<open>
  A store is keyed when every record sits under its own identifier. The methods only
  ever write a record under \<open>ID\<close> of that record, so the property is kept by each of them.
\<close>

definition keyed :: "UserStore \<Rightarrow> bool" where
  "keyed s \<longleftrightarrow> (\<forall>k u. users s k = Some u \<longrightarrow> ID u = k)"

text \<open>The three headers that \<open>corsMiddleware\<close> sets, as a header map.\<close>

definition cors_headers :: "string \<rightharpoonup> string" where
  "cors_headers =
     [''Access-Control-Allow-Origin'' \<mapsto> ''*'',
      ''Access-Control-Allow-Methods'' \<mapsto> ''GET, POST, PUT, DELETE, OPTIONS'',
      ''Access-Control-Allow-Headers'' \<mapsto> ''Content-Type, Authorization'']"

text \<open>
  A handler keeps the headers when the header it sends holds, under every key other than
  the two that \<^verbatim>\<open>http.Error\<close> sets, what the header map held when the handler was entered.
\<close>

definition keeps_headers :: "handler \<Rightarrow> bool" where
  "keeps_headers h \<longleftrightarrow>
     (\<forall>r w store k. code w = None \<and> k \<noteq> ''Content-Type'' \<and> k \<noteq> ''X-Content-Type-Options''
        \<longrightarrow> sent_header (finish (fst (h r (w, store)))) k = header w k)"

section \<open>Helper lemmas on the store\<close>

lemma keyed_NewUserStore: "keyed NewUserStore"
  by (simp add: keyed_def NewUserStore_def)

lemma keyed_Create: "keyed s \<Longrightarrow> keyed (Create user s)"
  by (simp add: keyed_def Create_def)

lemma keyed_Update: "keyed s \<Longrightarrow> keyed (snd (Update user s))"
  by (simp add: keyed_def Update_def)

lemma keyed_Delete: "keyed s \<Longrightarrow> keyed (snd (Delete uid s))"
  by (simp add: keyed_def Delete_def)

lemma GetAll_loop_Slice:
  "set ks \<subseteq> dom m \<Longrightarrow> GetAll_loop m ks (Slice acc) = Slice (acc @ map (\<lambda>k. the (m k)) ks)"
proof (induction ks arbitrary: acc)
  case Nil
  show ?case by simp
next
  case (Cons k ks)
  from Cons.prems obtain u where u: "m k = Some u" by auto
  from Cons.prems have "set ks \<subseteq> dom m" by simp
  from Cons.IH [OF this] u show ?case by simp
qed

lemma GetAll_eq:
  "range_order ks (users s) \<Longrightarrow> GetAll ks s = Slice (map (\<lambda>k. the (users s k)) ks)"
  using GetAll_loop_Slice [of ks "users s" "[]"]
  by (simp add: GetAll_def make_slice_def range_order_def)

lemma GetAll_ids:
  assumes "keyed s" and "range_order ks (users s)"
  shows "map ID (elems (GetAll ks s)) = ks"
proof -
  have "\<And>k. k \<in> set ks \<Longrightarrow> ID (the (users s k)) = k"
    using assms by (auto simp: keyed_def range_order_def)
  then have "map (\<lambda>k. ID (the (users s k))) ks = ks"
    by (simp add: map_idI)
  then show ?thesis
    using assms(2) by (simp add: GetAll_eq comp_def)
qed

lemma GetAll_ids_distinct:
  "keyed s \<Longrightarrow> range_order ks (users s) \<Longrightarrow> distinct (map ID (elems (GetAll ks s)))"
  by (simp add: GetAll_ids) (simp add: range_order_def)

lemma users_seeded:
  "users seeded_store =
     [''1'' \<mapsto> \<lparr>ID = ''1'', Name = ''John Doe'', Email = ''john@example.com''\<rparr>,
      ''2'' \<mapsto> \<lparr>ID = ''2'', Name = ''Jane Smith'', Email = ''jane@example.com''\<rparr>]"
  by (simp add: seeded_store_def Create_def NewUserStore_def)

lemma keyed_seeded: "keyed seeded_store"
  unfolding seeded_store_def by (intro keyed_Create keyed_NewUserStore)

lemma GetAll_loop_not_nil: "\<exists>xs. GetAll_loop m ks (Slice acc) = Slice xs"
  by (induction ks arbitrary: acc) (auto split: option.splits)

lemma GetAll_not_nil: "\<exists>xs. GetAll ks s = Slice xs"
  by (simp add: GetAll_def make_slice_def GetAll_loop_not_nil)

lemma GetAll_loop_empty: "GetAll_loop Map.empty ks acc = acc"
  by (induction ks) simp_all

lemma users_fold_Create:
  "users (fold Create us s) = users s ++ map_of (map (\<lambda>u. (ID u, u)) (rev us))"
proof (induction us arbitrary: s)
  case Nil
  show ?case by simp
next
  case (Cons u us)
  have step: "users (fold Create (u # us) s) =
      users (Create u s) ++ map_of (map (\<lambda>u. (ID u, u)) (rev us))"
    by (simp add: Cons.IH)
  show ?case
    unfolding step by (rule ext) (simp add: Create_def map_add_def split: option.splits)
qed

lemma users_Creates_from_empty:
  assumes "distinct (map ID us)"
  shows "dom (users (fold Create us NewUserStore)) = ID ` set us"
    and "u \<in> set us \<Longrightarrow> users (fold Create us NewUserStore) (ID u) = Some u"
proof -
  let ?xys = "map (\<lambda>u. (ID u, u)) (rev us)"
  have m: "users (fold Create us NewUserStore) = map_of ?xys"
    by (simp add: users_fold_Create NewUserStore_def)
  have d: "distinct (map fst ?xys)"
    using assms by (simp add: comp_def rev_map [symmetric])
  show "dom (users (fold Create us NewUserStore)) = ID ` set us"
    by (simp add: m dom_map_of_conv_image_fst image_image)
  show "users (fold Create us NewUserStore) (ID u) = Some u" if "u \<in> set us"
  proof -
    from that have "(ID u, u) \<in> set ?xys" by auto
    with d show ?thesis unfolding m by (rule map_of_is_SomeI)
  qed
qed

lemma range_order_exists:
  assumes "finite (dom m)"
  shows "\<exists>ks. range_order ks m"
proof -
  from finite_distinct_list [OF assms] obtain ks where ks: "set ks = dom m \<and> distinct ks" ..
  then have "range_order ks m"
    by (simp add: range_order_def)
  then show ?thesis ..
qed

lemma GetAll_Creates_aux:
  assumes d: "distinct (map ID us)" and r: "range_order ks (users (fold Create us NewUserStore))"
  shows "\<exists>xs. GetAll ks (fold Create us NewUserStore) = Slice xs \<and> set xs = set us \<and> length xs = length us \<and> distinct xs"
proof -
  define s where "s = fold Create us NewUserStore"
  define xs where "xs = map (\<lambda>k. the (users s k)) ks"
  have dom: "dom (users s) = ID ` set us"
    unfolding s_def by (rule users_Creates_from_empty(1) [OF d])
  from r have ks: "distinct ks" "set ks = ID ` set us"
    unfolding s_def [symmetric] range_order_def dom by blast+
  have at: "the (users s (ID u)) = u" if "u \<in> set us" for u
    unfolding s_def using users_Creates_from_empty(2) [OF d that] by simp
  have "set xs = (\<lambda>k. the (users s k)) ` ID ` set us"
    unfolding xs_def by (simp only: set_map ks(2))
  also have "\<dots> = (\<lambda>u. the (users s (ID u))) ` set us"
    by (simp only: image_image)
  also have "\<dots> = (\<lambda>u. u) ` set us"
    by (rule image_cong [OF refl]) (rule at)
  finally have set: "set xs = set us" by simp
  have "length xs = card (set ks)"
    unfolding xs_def using distinct_card [OF ks(1)] by simp
  also have "\<dots> = card (set (map ID us))"
    by (simp only: ks(2) set_map)
  also have "\<dots> = length us"
    using distinct_card [OF d] by simp
  finally have len: "length xs = length us" .
  from d have "distinct us"
    by (simp add: distinct_map)
  then have "card (set us) = length us"
    by (rule distinct_card)
  then have "card (set xs) = length xs"
    by (simp only: set len)
  then have dist: "distinct xs"
    by (rule card_distinct)
  have "GetAll ks s = Slice xs"
    unfolding xs_def by (rule GetAll_eq) (use r in \<open>simp only: s_def\<close>)
  with set len dist show ?thesis
    unfolding s_def by blast
qed


section \<open>Helper lemmas on the response writer and the handlers\<close>

lemma code_http_Error: "code w = None \<Longrightarrow> code (http_Error msg c w) = Some c"
  by (simp add: http_Error_def Write_def WriteHeader_def Header_Set_def)

lemma code_Encode: "code w = None \<Longrightarrow> code (Encode v w) = Some StatusOK"
  by (simp add: Encode_def Write_def WriteHeader_def)

lemma body_Encode: "body (Encode v w) = body w @ [v]"
  by (simp add: Encode_def Write_def WriteHeader_def)

lemma code_Encode_WriteHeader: "code w = None \<Longrightarrow> code (Encode v (WriteHeader c w)) = Some c"
  by (simp add: Encode_def Write_def WriteHeader_def)

lemma body_WriteHeader: "body (WriteHeader c w) = body w"
  by (simp add: WriteHeader_def)

lemma decode_alice:
  "sample_Decode (Body post_alice) zero_User
     = Inr \<lparr>ID = ''3'', Name = ''Alice Johnson'', Email = ''alice@example.com''\<rparr>"
  by (simp add: sample_Decode_def post_alice_def zero_User_def)

lemma decode_bob:
  "sample_Decode (Body post_bob) zero_User = Inr \<lparr>ID = ''9'', Name = ''Bob'', Email = []\<rparr>"
  by (simp add: sample_Decode_def post_bob_def zero_User_def)

lemma code_new: "code new_ResponseWriter = None"
  by (simp add: new_ResponseWriter_def)

lemma updateUserHandler_absent:
  assumes "dec (Body r) zero_User = Inr decoded" and "users store (path_id r) = None"
  shows "updateUserHandler dec r (w, store) = (http_Error ''User not found'' StatusNotFound w, store)"
  using assms by (simp add: updateUserHandler_def Update_def)

lemma updateUserHandler_present:
  assumes "dec (Body r) zero_User = Inr decoded" and "users store (path_id r) \<noteq> None"
  shows "updateUserHandler dec r (w, store) =
    (Encode (JsonUser (decoded\<lparr>ID := path_id r\<rparr>)) w,
     store\<lparr>users := (users store)(path_id r \<mapsto> decoded\<lparr>ID := path_id r\<rparr>)\<rparr>)"
  using assms by (simp add: updateUserHandler_def Update_def Let_def)

lemma updateUserHandler_undecodable:
  assumes "dec (Body r) zero_User = Inl err"
  shows "updateUserHandler dec r (w, store) = (http_Error err StatusBadRequest w, store)"
  using assms by (simp add: updateUserHandler_def)

lemma decode_put_bob_1:
  "sample_Decode (Body put_bob_1) zero_User = Inr \<lparr>ID = ''9'', Name = ''Bob'', Email = []\<rparr>"
  by (simp add: sample_Decode_def put_bob_1_def zero_User_def)

lemma decode_put_bob_7:
  "sample_Decode (Body put_bob_7) zero_User = Inr \<lparr>ID = ''9'', Name = ''Bob'', Email = []\<rparr>"
  by (simp add: sample_Decode_def put_bob_7_def zero_User_def)

lemma decode_put_empty_1:
  "sample_Decode (Body put_empty_1) zero_User = Inr zero_User"
  by (simp add: sample_Decode_def put_empty_1_def)

lemma path_id_samples:
  "path_id put_bob_1 = ''1''" "path_id put_bob_7 = ''7''" "path_id put_empty_1 = ''1''"
  by (simp_all add: path_id_def put_bob_1_def put_bob_7_def put_empty_1_def)

lemma body_new: "body new_ResponseWriter = []"
  by (simp add: new_ResponseWriter_def)

lemma cors_set:
  "Header_Set ''Access-Control-Allow-Headers'' ''Content-Type, Authorization''
     (Header_Set ''Access-Control-Allow-Methods'' ''GET, POST, PUT, DELETE, OPTIONS''
       (Header_Set ''Access-Control-Allow-Origin'' ''*'' w))
   = w\<lparr>header := header w ++ cors_headers\<rparr>"
  by (simp add: Header_Set_def cors_headers_def)

lemma corsMiddleware_eq:
  "corsMiddleware next r (w, store) =
     (if Method r = ''OPTIONS''
      then (WriteHeader StatusOK (w\<lparr>header := header w ++ cors_headers\<rparr>), store)
      else next r (w\<lparr>header := header w ++ cors_headers\<rparr>, store))"
  by (simp add: corsMiddleware_def Let_def cors_set)

lemma cors_in_header:
  "k \<in> dom cors_headers \<Longrightarrow> (header w ++ cors_headers) k = cors_headers k"
  by (auto simp: map_add_def split: option.splits)

lemma cors_keys:
  "k \<in> dom cors_headers \<Longrightarrow> k \<noteq> ''Content-Type'' \<and> k \<noteq> ''X-Content-Type-Options''"
  by (auto simp: cors_headers_def split: if_splits)

lemma keeps_health: "keeps_headers healthCheckHandler"
  by (simp add: keeps_headers_def healthCheckHandler_def finish_def Encode_def Write_def WriteHeader_def)

lemma keeps_create: "keeps_headers (createUserHandler dec)"
  by (simp add: keeps_headers_def createUserHandler_def finish_def Encode_def Write_def
      WriteHeader_def http_Error_def Header_Set_def split: sum.splits)

lemma keeps_get: "keeps_headers getUserHandler"
  by (simp add: keeps_headers_def getUserHandler_def finish_def Encode_def Write_def
      WriteHeader_def http_Error_def Header_Set_def split: prod.splits)

lemma keeps_getAll: "keeps_headers (getAllUsersHandler ks)"
  by (simp add: keeps_headers_def getAllUsersHandler_def finish_def Encode_def Write_def
      WriteHeader_def)

lemma keeps_update: "keeps_headers (updateUserHandler dec)"
  by (simp add: keeps_headers_def updateUserHandler_def finish_def Encode_def Write_def
      WriteHeader_def http_Error_def Header_Set_def Let_def split: sum.splits prod.splits)

lemma keeps_delete: "keeps_headers deleteUserHandler"
  by (simp add: keeps_headers_def deleteUserHandler_def finish_def Encode_def Write_def
      WriteHeader_def http_Error_def Header_Set_def split: prod.splits)

lemma cors_kept:
  assumes "keeps_headers h" and "code w = None"
  shows "cors_headers \<subseteq>\<^sub>m sent_header (finish (fst (corsMiddleware h r (w, store))))"
proof (unfold map_le_def, rule ballI)
  fix k assume k: "k \<in> dom cors_headers"
  let ?w = "w\<lparr>header := header w ++ cors_headers\<rparr>"
  have c: "code ?w = None" using assms(2) by simp
  show "cors_headers k = sent_header (finish (fst (corsMiddleware h r (w, store)))) k"
  proof (cases "Method r = ''OPTIONS''")
    case True
    then show ?thesis
      using k c by (simp add: corsMiddleware_eq finish_def WriteHeader_def cors_in_header)
  next
    case False
    from assms(1) c cors_keys [OF k]
    have "sent_header (finish (fst (h r (?w, store)))) k = header ?w k"
      unfolding keeps_headers_def by blast
    with False k show ?thesis
      by (simp add: corsMiddleware_eq cors_in_header)
  qed
qed

section \<open>Store: create, then get\<close>

text \<open>
  C1. For every user record with a non-empty identifier, Create with that record followed
  by Get with the same identifier returns exactly that record, with found = true,
  whatever the store held before.
\<close>

theorem Create_then_Get:
  assumes "ID user \<noteq> []"
  shows "Get (ID user) (Create user s) = (user, True)"
  by (simp add: Get_def Create_def)

theorem Create_then_Get_witness:
  "ID \<lparr>ID = ''1'', Name = ''A'', Email = ''a@x.com''\<rparr> \<noteq> [] \<and>
   Get ''1'' (Create \<lparr>ID = ''1'', Name = ''A'', Email = ''a@x.com''\<rparr> NewUserStore)
     = (\<lparr>ID = ''1'', Name = ''A'', Email = ''a@x.com''\<rparr>, True)"
  using Create_then_Get [of "\<lparr>ID = ''1'', Name = ''A'', Email = ''a@x.com''\<rparr>" NewUserStore]
  by simp

section \<open>Store: create is an upsert\<close>

text \<open>
  C2. For every record and every prior store, Create inserts the record when its identifier
  is absent (the key set grows by that identifier) and overwrites the stored record when
  the identifier is present (the key set is unchanged); in both cases the record is stored,
  there is no failing branch; Create, Update and Delete keep every record under its own
  identifier, so the records GetAll returns carry pairwise distinct identifiers.
\<close>

theorem Create_upsert:
  "(users s (ID user) = None \<longrightarrow>
      users (Create user s) = (users s)(ID user \<mapsto> user) \<and>
      dom (users (Create user s)) = insert (ID user) (dom (users s)) \<and>
      ID user \<notin> dom (users s))
   \<and> (users s (ID user) \<noteq> None \<longrightarrow>
      users (Create user s) (ID user) = Some user \<and>
      dom (users (Create user s)) = dom (users s))
   \<and> Get (ID user) (Create user s) = (user, True)
   \<and> (keyed s \<longrightarrow> keyed (Create user s) \<and> keyed (snd (Update user s)) \<and> keyed (snd (Delete uid s)))
   \<and> (keyed s \<and> range_order ks (users (Create user s)) \<longrightarrow>
        distinct (map ID (elems (GetAll ks (Create user s)))))"
proof -
  have absent: "users s (ID user) = None \<longrightarrow>
      users (Create user s) = (users s)(ID user \<mapsto> user) \<and>
      dom (users (Create user s)) = insert (ID user) (dom (users s)) \<and>
      ID user \<notin> dom (users s)"
    by (auto simp: Create_def)
  have present: "users s (ID user) \<noteq> None \<longrightarrow>
      users (Create user s) (ID user) = Some user \<and>
      dom (users (Create user s)) = dom (users s)"
    by (auto simp: Create_def)
  have got: "Get (ID user) (Create user s) = (user, True)"
    by (simp add: Get_def Create_def)
  have inv: "keyed s \<longrightarrow>
      keyed (Create user s) \<and> keyed (snd (Update user s)) \<and> keyed (snd (Delete uid s))"
    by (simp add: keyed_Create keyed_Update keyed_Delete)
  have uniq: "keyed s \<and> range_order ks (users (Create user s)) \<longrightarrow>
      distinct (map ID (elems (GetAll ks (Create user s))))"
    using GetAll_ids_distinct keyed_Create by blast
  from absent present got inv uniq show ?thesis by blast
qed

theorem Create_upsert_witness:
  "users seeded_store ''3'' = None \<and>
   users seeded_store ''1'' \<noteq> None \<and>
   keyed seeded_store \<and>
   range_order [''2'', ''1''] (users (Create \<lparr>ID = ''1'', Name = ''J'', Email = ''j@x.com''\<rparr> seeded_store)) \<and>
   dom (users (Create \<lparr>ID = ''3'', Name = ''A'', Email = ''a@x.com''\<rparr> seeded_store)) = {''1'', ''2'', ''3''} \<and>
   dom (users (Create \<lparr>ID = ''1'', Name = ''J'', Email = ''j@x.com''\<rparr> seeded_store)) = {''1'', ''2''} \<and>
   users (Create \<lparr>ID = ''1'', Name = ''J'', Email = ''j@x.com''\<rparr> seeded_store) ''1''
     = Some \<lparr>ID = ''1'', Name = ''J'', Email = ''j@x.com''\<rparr> \<and>
   keyed (Create \<lparr>ID = ''1'', Name = ''J'', Email = ''j@x.com''\<rparr> seeded_store) \<and>
   distinct (map ID (elems (GetAll [''2'', ''1'']
     (Create \<lparr>ID = ''1'', Name = ''J'', Email = ''j@x.com''\<rparr> seeded_store))))"
proof -
  have a: "users seeded_store ''3'' = None" and p: "users seeded_store ''1'' \<noteq> None"
    by (simp_all add: users_seeded)
  have d: "dom (users seeded_store) = {''1'', ''2''}"
    by (auto simp: users_seeded)
  have r: "range_order [''2'', ''1'']
      (users (Create \<lparr>ID = ''1'', Name = ''J'', Email = ''j@x.com''\<rparr> seeded_store))"
    by (auto simp: range_order_def Create_def d)
  from Create_upsert [of seeded_store "\<lparr>ID = ''3'', Name = ''A'', Email = ''a@x.com''\<rparr>" "''3''" "[]"] a d
  have n: "dom (users (Create \<lparr>ID = ''3'', Name = ''A'', Email = ''a@x.com''\<rparr> seeded_store)) = {''1'', ''2'', ''3''}"
    by auto
  from Create_upsert [of seeded_store "\<lparr>ID = ''1'', Name = ''J'', Email = ''j@x.com''\<rparr>" "''1''" "[''2'', ''1'']"]
    p d r keyed_seeded n a
  show ?thesis by simp
qed

section \<open>Store: update\<close>

text \<open>
  C3. Update returns true exactly when a record with the identifier of the argument is
  stored; then the stored record is the argument, whole (Get returns it); otherwise it
  returns false and the store is the one it was given, nothing inserted.
\<close>

theorem Update_replaces_iff_present:
  "(fst (Update user s) \<longleftrightarrow> users s (ID user) \<noteq> None)
   \<and> (users s (ID user) \<noteq> None \<longrightarrow>
        Update user s = (True, s\<lparr>users := (users s)(ID user \<mapsto> user)\<rparr>) \<and>
        Get (ID user) (snd (Update user s)) = (user, True))
   \<and> (users s (ID user) = None \<longrightarrow>
        Update user s = (False, s) \<and>
        Get (ID user) (snd (Update user s)) = (zero_User, False))"
  by (simp add: Update_def Get_def)

theorem Update_replaces_iff_present_witness:
  "users seeded_store ''1'' \<noteq> None \<and> users seeded_store ''7'' = None \<and>
   Update \<lparr>ID = ''1'', Name = ''J'', Email = []\<rparr> seeded_store
     = (True, seeded_store\<lparr>users := (users seeded_store)(''1'' \<mapsto> \<lparr>ID = ''1'', Name = ''J'', Email = []\<rparr>)\<rparr>) \<and>
   Get ''1'' (snd (Update \<lparr>ID = ''1'', Name = ''J'', Email = []\<rparr> seeded_store))
     = (\<lparr>ID = ''1'', Name = ''J'', Email = []\<rparr>, True) \<and>
   Update \<lparr>ID = ''7'', Name = ''J'', Email = []\<rparr> seeded_store = (False, seeded_store)"
proof -
  have p: "users seeded_store ''1'' \<noteq> None" and a: "users seeded_store ''7'' = None"
    by (simp_all add: users_seeded)
  from Update_replaces_iff_present [of "\<lparr>ID = ''1'', Name = ''J'', Email = []\<rparr>" seeded_store]
    Update_replaces_iff_present [of "\<lparr>ID = ''7'', Name = ''J'', Email = []\<rparr>" seeded_store] p a
  show ?thesis by auto
qed

section \<open>Store: delete\<close>

text \<open>
  C4. Delete returns true exactly when the identifier is present, and then removes the
  record; after a Delete the identifier is absent, so a second Delete of the same
  identifier returns false and leaves the store as the first Delete left it.
\<close>

theorem Delete_removes_iff_present:
  "(fst (Delete uid s) \<longleftrightarrow> users s uid \<noteq> None)
   \<and> (users s uid \<noteq> None \<longrightarrow> Delete uid s = (True, s\<lparr>users := (users s)(uid := None)\<rparr>))
   \<and> (users s uid = None \<longrightarrow> Delete uid s = (False, s))
   \<and> users (snd (Delete uid s)) uid = None
   \<and> Delete uid (snd (Delete uid s)) = (False, snd (Delete uid s))"
  by (simp add: Delete_def)

theorem Delete_removes_iff_present_witness:
  "users seeded_store ''1'' \<noteq> None \<and>
   fst (Delete ''1'' seeded_store) \<and>
   users (snd (Delete ''1'' seeded_store)) ''1'' = None \<and>
   users (snd (Delete ''1'' seeded_store)) ''2'' \<noteq> None \<and>
   Delete ''1'' (snd (Delete ''1'' seeded_store)) = (False, snd (Delete ''1'' seeded_store)) \<and>
   users seeded_store ''7'' = None \<and>
   Delete ''7'' seeded_store = (False, seeded_store)"
proof -
  have p: "users seeded_store ''1'' \<noteq> None" and a: "users seeded_store ''7'' = None"
    by (simp_all add: users_seeded)
  have o: "users (snd (Delete ''1'' seeded_store)) ''2'' \<noteq> None"
    by (simp add: Delete_def users_seeded)
  from Delete_removes_iff_present [of "''1''" seeded_store]
    Delete_removes_iff_present [of "''7''" seeded_store] p a o
  show ?thesis by blast
qed

section \<open>Store: get all\<close>

text \<open>
  C5. Starting from the empty store, after Create on each record of a list with pairwise
  distinct identifiers, GetAll (for any order in which the map is ranged over, and one
  exists) returns a slice that is not nil and holds exactly those records, each once.
  On the empty store GetAll returns the empty slice, not nil, and the handler of
  GET /users answers 200 with the encoding of that empty slice; on any store the
  handler answers 200 with the encoding of a slice that is not nil.
\<close>

theorem GetAll_after_Creates:
  "(distinct (map ID us) \<and> range_order ks (users (fold Create us NewUserStore)) \<longrightarrow>
      (\<exists>xs. GetAll ks (fold Create us NewUserStore) = Slice xs \<and>
            set xs = set us \<and> length xs = length us \<and> distinct xs))
   \<and> (distinct (map ID us) \<longrightarrow> (\<exists>ks. range_order ks (users (fold Create us NewUserStore))))
   \<and> GetAll ks NewUserStore = Slice []
   \<and> GetAll ks NewUserStore \<noteq> NilSlice
   \<and> (\<exists>xs. GetAll ks s = Slice xs)
   \<and> (\<exists>xs. getAllUsersHandler ks r (new_ResponseWriter, s) =
         (new_ResponseWriter\<lparr>code := Some StatusOK, body := [JsonUsers (Slice xs)]\<rparr>, s))
   \<and> getAllUsersHandler ks r (new_ResponseWriter, NewUserStore) =
         (new_ResponseWriter\<lparr>code := Some StatusOK, body := [JsonUsers (Slice [])]\<rparr>, NewUserStore)"
proof -
  let ?s = "fold Create us NewUserStore"
  have ex: "\<exists>ks. range_order ks (users ?s)" if d: "distinct (map ID us)"
  proof (rule range_order_exists)
    show "finite (dom (users ?s))"
      by (simp add: users_Creates_from_empty(1) [OF d])
  qed
  have e: "GetAll ks NewUserStore = Slice []"
    by (simp add: GetAll_def NewUserStore_def GetAll_loop_empty make_slice_def)
  obtain xs where xs: "GetAll ks s = Slice xs"
    using GetAll_not_nil by blast
  have h: "getAllUsersHandler ks r (new_ResponseWriter, s) =
         (new_ResponseWriter\<lparr>code := Some StatusOK, body := [JsonUsers (Slice xs)]\<rparr>, s)"
    by (simp add: getAllUsersHandler_def Encode_def Write_def WriteHeader_def
        new_ResponseWriter_def xs)
  have h0: "getAllUsersHandler ks r (new_ResponseWriter, NewUserStore) =
         (new_ResponseWriter\<lparr>code := Some StatusOK, body := [JsonUsers (Slice [])]\<rparr>, NewUserStore)"
    by (simp add: getAllUsersHandler_def Encode_def Write_def WriteHeader_def
        new_ResponseWriter_def e)
  show ?thesis
  proof (intro conjI impI)
    assume "distinct (map ID us) \<and> range_order ks (users ?s)"
    then show "\<exists>xs. GetAll ks ?s = Slice xs \<and> set xs = set us \<and> length xs = length us \<and> distinct xs"
      using GetAll_Creates_aux by blast
  next
    assume "distinct (map ID us)"
    then show "\<exists>ks. range_order ks (users ?s)" by (rule ex)
  next
    show "GetAll ks NewUserStore = Slice []" by (rule e)
    show "GetAll ks NewUserStore \<noteq> NilSlice" by (simp add: e)
    show "\<exists>xs. GetAll ks s = Slice xs" by (rule GetAll_not_nil)
    show "\<exists>xs. getAllUsersHandler ks r (new_ResponseWriter, s) =
         (new_ResponseWriter\<lparr>code := Some StatusOK, body := [JsonUsers (Slice xs)]\<rparr>, s)"
      by (rule exI, rule h)
    show "getAllUsersHandler ks r (new_ResponseWriter, NewUserStore) =
         (new_ResponseWriter\<lparr>code := Some StatusOK, body := [JsonUsers (Slice [])]\<rparr>, NewUserStore)"
      by (rule h0)
  qed
qed


theorem GetAll_after_Creates_witness:
  "distinct (map ID [\<lparr>ID = ''1'', Name = ''John Doe'', Email = ''john@example.com''\<rparr>,
                     \<lparr>ID = ''2'', Name = ''Jane Smith'', Email = ''jane@example.com''\<rparr>]) \<and>
   range_order [''2'', ''1'']
     (users (fold Create [\<lparr>ID = ''1'', Name = ''John Doe'', Email = ''john@example.com''\<rparr>,
                          \<lparr>ID = ''2'', Name = ''Jane Smith'', Email = ''jane@example.com''\<rparr>] NewUserStore)) \<and>
   set (elems (GetAll [''2'', ''1'']
     (fold Create [\<lparr>ID = ''1'', Name = ''John Doe'', Email = ''john@example.com''\<rparr>,
                   \<lparr>ID = ''2'', Name = ''Jane Smith'', Email = ''jane@example.com''\<rparr>] NewUserStore)))
     = {\<lparr>ID = ''1'', Name = ''John Doe'', Email = ''john@example.com''\<rparr>,
        \<lparr>ID = ''2'', Name = ''Jane Smith'', Email = ''jane@example.com''\<rparr>} \<and>
   length (elems (GetAll [''2'', ''1'']
     (fold Create [\<lparr>ID = ''1'', Name = ''John Doe'', Email = ''john@example.com''\<rparr>,
                   \<lparr>ID = ''2'', Name = ''Jane Smith'', Email = ''jane@example.com''\<rparr>] NewUserStore))) = 2"
proof -
  let ?us = "[\<lparr>ID = ''1'', Name = ''John Doe'', Email = ''john@example.com''\<rparr>,
              \<lparr>ID = ''2'', Name = ''Jane Smith'', Email = ''jane@example.com''\<rparr>]"
  have d: "distinct (map ID ?us)" by simp
  have r: "range_order [''2'', ''1''] (users (fold Create ?us NewUserStore))"
    by (auto simp: range_order_def Create_def NewUserStore_def)
  from GetAll_after_Creates [of ?us "[''2'', ''1'']"] d r
  obtain xs where "GetAll [''2'', ''1''] (fold Create ?us NewUserStore) = Slice xs"
    and "set xs = set ?us" and "length xs = length ?us"
    by blast
  with d r show ?thesis by simp
qed

section \<open>Store: frame\<close>

text \<open>
  C10. For Create, Update and Delete called with a record or identifier X, the entry of every
  identifier Y other than X (the record stored, or its absence) is the same after the
  call as before.
\<close>

theorem store_frame:
  "(y \<noteq> ID user \<longrightarrow> users (Create user s) y = users s y)
   \<and> (y \<noteq> ID user \<longrightarrow> users (snd (Update user s)) y = users s y)
   \<and> (y \<noteq> x \<longrightarrow> users (snd (Delete x s)) y = users s y)"
  by (simp add: Create_def Update_def Delete_def)

theorem store_frame_witness:
  "''2'' \<noteq> ID \<lparr>ID = ''1'', Name = ''J'', Email = []\<rparr> \<and> ''2'' \<noteq> ''1'' \<and>
   users (Create \<lparr>ID = ''1'', Name = ''J'', Email = []\<rparr> seeded_store) ''2''
     = Some \<lparr>ID = ''2'', Name = ''Jane Smith'', Email = ''jane@example.com''\<rparr> \<and>
   users (snd (Update \<lparr>ID = ''1'', Name = ''J'', Email = []\<rparr> seeded_store)) ''2''
     = Some \<lparr>ID = ''2'', Name = ''Jane Smith'', Email = ''jane@example.com''\<rparr> \<and>
   users (snd (Delete ''1'' seeded_store)) ''2''
     = Some \<lparr>ID = ''2'', Name = ''Jane Smith'', Email = ''jane@example.com''\<rparr>"
  using store_frame [of "''2''" "\<lparr>ID = ''1'', Name = ''J'', Email = []\<rparr>" seeded_store "''1''"]
  by (simp add: users_seeded)


section \<open>Handler: POST /users\<close>

text \<open>
  C6. For every request to the create handler whose body decodes to a record with an empty
  identifier, name or email, the handler answers 400 and leaves the store as it was;
  when the three fields are non-empty it stores the record with Create and answers 201
  with the encoding of that record.
\<close>

theorem createUserHandler_validates:
  assumes "dec (Body r) zero_User = Inr user" and "code w = None"
  shows "(ID user = [] \<or> Name user = [] \<or> Email user = [] \<longrightarrow>
            createUserHandler dec r (w, store)
              = (http_Error ''ID, Name, and Email are required'' StatusBadRequest w, store) \<and>
            code (fst (createUserHandler dec r (w, store))) = Some StatusBadRequest \<and>
            snd (createUserHandler dec r (w, store)) = store)
       \<and> (ID user \<noteq> [] \<and> Name user \<noteq> [] \<and> Email user \<noteq> [] \<longrightarrow>
            snd (createUserHandler dec r (w, store)) = Create user store \<and>
            Get (ID user) (snd (createUserHandler dec r (w, store))) = (user, True) \<and>
            code (fst (createUserHandler dec r (w, store))) = Some StatusCreated \<and>
            body (fst (createUserHandler dec r (w, store))) = body w @ [JsonUser user])"
proof (intro conjI impI)
  assume bad: "ID user = [] \<or> Name user = [] \<or> Email user = []"
  then show eq: "createUserHandler dec r (w, store)
      = (http_Error ''ID, Name, and Email are required'' StatusBadRequest w, store)"
    using assms(1) by (simp add: createUserHandler_def)
  show "code (fst (createUserHandler dec r (w, store))) = Some StatusBadRequest"
    by (simp add: eq code_http_Error assms(2))
  show "snd (createUserHandler dec r (w, store)) = store"
    by (simp add: eq)
next
  assume ok: "ID user \<noteq> [] \<and> Name user \<noteq> [] \<and> Email user \<noteq> []"
  then have eq: "createUserHandler dec r (w, store)
      = (Encode (JsonUser user) (WriteHeader StatusCreated w), Create user store)"
    using assms(1) by (simp add: createUserHandler_def)
  show "snd (createUserHandler dec r (w, store)) = Create user store"
    by (simp add: eq)
  show "Get (ID user) (snd (createUserHandler dec r (w, store))) = (user, True)"
    by (simp add: eq Get_def Create_def)
  show "code (fst (createUserHandler dec r (w, store))) = Some StatusCreated"
    by (simp add: eq code_Encode_WriteHeader assms(2))
  show "body (fst (createUserHandler dec r (w, store))) = body w @ [JsonUser user]"
    by (simp add: eq body_Encode body_WriteHeader)
qed

theorem createUserHandler_validates_witness:
  "sample_Decode (Body post_bob) zero_User = Inr \<lparr>ID = ''9'', Name = ''Bob'', Email = []\<rparr> \<and>
   sample_Decode (Body post_alice) zero_User
     = Inr \<lparr>ID = ''3'', Name = ''Alice Johnson'', Email = ''alice@example.com''\<rparr> \<and>
   code new_ResponseWriter = None \<and>
   code (fst (createUserHandler sample_Decode post_bob (new_ResponseWriter, seeded_store)))
     = Some StatusBadRequest \<and>
   snd (createUserHandler sample_Decode post_bob (new_ResponseWriter, seeded_store)) = seeded_store \<and>
   code (fst (createUserHandler sample_Decode post_alice (new_ResponseWriter, seeded_store)))
     = Some StatusCreated \<and>
   body (fst (createUserHandler sample_Decode post_alice (new_ResponseWriter, seeded_store)))
     = [JsonUser \<lparr>ID = ''3'', Name = ''Alice Johnson'', Email = ''alice@example.com''\<rparr>] \<and>
   Get ''3'' (snd (createUserHandler sample_Decode post_alice (new_ResponseWriter, seeded_store)))
     = (\<lparr>ID = ''3'', Name = ''Alice Johnson'', Email = ''alice@example.com''\<rparr>, True)"
proof -
  have b: "body new_ResponseWriter = []"
    by (simp add: new_ResponseWriter_def)
  from createUserHandler_validates [where dec = sample_Decode and r = post_bob
      and w = new_ResponseWriter and store = seeded_store, OF decode_bob code_new]
    createUserHandler_validates [where dec = sample_Decode and r = post_alice
      and w = new_ResponseWriter and store = seeded_store, OF decode_alice code_new]
    decode_bob decode_alice code_new b
  show ?thesis by auto
qed

section \<open>Handler: PUT /users/{id}\<close>

text \<open>
  C7. For every request to the update handler with a decodable body, the record used is the
  decoded one with its identifier set to the path parameter, whatever identifier the body
  gave; the handler answers 404 and changes nothing when no record is stored under that
  identifier; otherwise it stores the record in place of the old one and answers 200 with
  its encoding. A name or email that the body does not supply is empty in that record,
  since the body is decoded into the zero value.
\<close>

theorem updateUserHandler_replaces:
  assumes "dec (Body r) zero_User = Inr decoded" and "code w = None"
  shows "ID (decoded\<lparr>ID := path_id r\<rparr>) = path_id r
       \<and> (users store (path_id r) = None \<longrightarrow>
            code (fst (updateUserHandler dec r (w, store))) = Some StatusNotFound \<and>
            snd (updateUserHandler dec r (w, store)) = store)
       \<and> (users store (path_id r) \<noteq> None \<longrightarrow>
            code (fst (updateUserHandler dec r (w, store))) = Some StatusOK \<and>
            body (fst (updateUserHandler dec r (w, store)))
              = body w @ [JsonUser (decoded\<lparr>ID := path_id r\<rparr>)] \<and>
            users (snd (updateUserHandler dec r (w, store)))
              = (users store)(path_id r \<mapsto> decoded\<lparr>ID := path_id r\<rparr>) \<and>
            Get (path_id r) (snd (updateUserHandler dec r (w, store)))
              = (decoded\<lparr>ID := path_id r\<rparr>, True))
       \<and> ((\<forall>t t'. dec (Body r) t = Inr t' \<longrightarrow> Name t' = Name t) \<longrightarrow>
            Name (decoded\<lparr>ID := path_id r\<rparr>) = [])
       \<and> ((\<forall>t t'. dec (Body r) t = Inr t' \<longrightarrow> Email t' = Email t) \<longrightarrow>
            Email (decoded\<lparr>ID := path_id r\<rparr>) = [])"
proof (intro conjI impI)
  show "ID (decoded\<lparr>ID := path_id r\<rparr>) = path_id r" by simp
next
  assume a: "users store (path_id r) = None"
  note eq = updateUserHandler_absent [where dec = dec and r = r and w = w, OF assms(1) a]
  show "code (fst (updateUserHandler dec r (w, store))) = Some StatusNotFound"
    by (simp add: eq code_http_Error assms(2))
  show "snd (updateUserHandler dec r (w, store)) = store"
    by (simp add: eq)
next
  assume p: "users store (path_id r) \<noteq> None"
  note eq = updateUserHandler_present [where dec = dec and r = r and w = w, OF assms(1) p]
  show "code (fst (updateUserHandler dec r (w, store))) = Some StatusOK"
    by (simp add: eq code_Encode assms(2))
  show "body (fst (updateUserHandler dec r (w, store)))
      = body w @ [JsonUser (decoded\<lparr>ID := path_id r\<rparr>)]"
    by (simp add: eq body_Encode)
  show "users (snd (updateUserHandler dec r (w, store)))
      = (users store)(path_id r \<mapsto> decoded\<lparr>ID := path_id r\<rparr>)"
    by (simp add: eq)
  show "Get (path_id r) (snd (updateUserHandler dec r (w, store)))
      = (decoded\<lparr>ID := path_id r\<rparr>, True)"
    by (simp add: eq Get_def)
next
  assume "\<forall>t t'. dec (Body r) t = Inr t' \<longrightarrow> Name t' = Name t"
  with assms(1) have "Name decoded = Name zero_User" by blast
  then show "Name (decoded\<lparr>ID := path_id r\<rparr>) = []" by (simp add: zero_User_def)
next
  assume "\<forall>t t'. dec (Body r) t = Inr t' \<longrightarrow> Email t' = Email t"
  with assms(1) have "Email decoded = Email zero_User" by blast
  then show "Email (decoded\<lparr>ID := path_id r\<rparr>) = []" by (simp add: zero_User_def)
qed

theorem updateUserHandler_replaces_witness:
  "sample_Decode (Body put_bob_1) zero_User = Inr \<lparr>ID = ''9'', Name = ''Bob'', Email = []\<rparr> \<and>
   sample_Decode (Body put_bob_7) zero_User = Inr \<lparr>ID = ''9'', Name = ''Bob'', Email = []\<rparr> \<and>
   code new_ResponseWriter = None \<and>
   users seeded_store (path_id put_bob_7) = None \<and>
   users seeded_store (path_id put_bob_1) \<noteq> None \<and>
   code (fst (updateUserHandler sample_Decode put_bob_7 (new_ResponseWriter, seeded_store)))
     = Some StatusNotFound \<and>
   snd (updateUserHandler sample_Decode put_bob_7 (new_ResponseWriter, seeded_store)) = seeded_store \<and>
   code (fst (updateUserHandler sample_Decode put_bob_1 (new_ResponseWriter, seeded_store)))
     = Some StatusOK \<and>
   body (fst (updateUserHandler sample_Decode put_bob_1 (new_ResponseWriter, seeded_store)))
     = [JsonUser \<lparr>ID = ''1'', Name = ''Bob'', Email = []\<rparr>] \<and>
   Get ''1'' (snd (updateUserHandler sample_Decode put_bob_1 (new_ResponseWriter, seeded_store)))
     = (\<lparr>ID = ''1'', Name = ''Bob'', Email = []\<rparr>, True)"
proof -
  have a: "users seeded_store (path_id put_bob_7) = None"
    and p: "users seeded_store (path_id put_bob_1) \<noteq> None"
    by (simp_all add: path_id_samples users_seeded)
  have o: "\<forall>t t'. sample_Decode (Body put_bob_1) t = Inr t' \<longrightarrow> Email t' = Email t"
    by (auto simp: sample_Decode_def put_bob_1_def)
  from updateUserHandler_replaces [where dec = sample_Decode and r = put_bob_7
      and w = new_ResponseWriter and store = seeded_store, OF decode_put_bob_7 code_new] a
  have seven: "code (fst (updateUserHandler sample_Decode put_bob_7 (new_ResponseWriter, seeded_store)))
      = Some StatusNotFound \<and>
    snd (updateUserHandler sample_Decode put_bob_7 (new_ResponseWriter, seeded_store)) = seeded_store"
    by blast
  from updateUserHandler_replaces [where dec = sample_Decode and r = put_bob_1
      and w = new_ResponseWriter and store = seeded_store, OF decode_put_bob_1 code_new] p o
  have one: "code (fst (updateUserHandler sample_Decode put_bob_1 (new_ResponseWriter, seeded_store)))
      = Some StatusOK \<and>
    body (fst (updateUserHandler sample_Decode put_bob_1 (new_ResponseWriter, seeded_store)))
      = [JsonUser \<lparr>ID = ''1'', Name = ''Bob'', Email = []\<rparr>] \<and>
    Get ''1'' (snd (updateUserHandler sample_Decode put_bob_1 (new_ResponseWriter, seeded_store)))
      = (\<lparr>ID = ''1'', Name = ''Bob'', Email = []\<rparr>, True)"
    by (simp add: path_id_samples body_new)
  from decode_put_bob_1 decode_put_bob_7 code_new a p seven one
  show ?thesis by (intro conjI) (erule conjunct1 conjunct2 | assumption | simp)+
qed

section \<open>Validation in the handlers that read a body\<close>

text \<open>
  The update handler has no check of the decoded fields: a PUT on the stored identifier 1
  with the body \<open>{}\<close>, which supplies neither name nor email, is answered 200 and the
  record stored under 1 afterwards has an empty name and an empty email.
\<close>

theorem update_without_validation_counterexample:
  "sample_Decode (Body put_empty_1) zero_User = Inr zero_User \<and>
   Name zero_User = [] \<and> Email zero_User = [] \<and>
   code (fst (updateUserHandler sample_Decode put_empty_1 (new_ResponseWriter, seeded_store)))
     = Some StatusOK \<and>
   users seeded_store ''1'' = Some \<lparr>ID = ''1'', Name = ''John Doe'', Email = ''john@example.com''\<rparr> \<and>
   users (snd (updateUserHandler sample_Decode put_empty_1 (new_ResponseWriter, seeded_store))) ''1''
     = Some \<lparr>ID = ''1'', Name = [], Email = []\<rparr>"
proof -
  have p: "users seeded_store (path_id put_empty_1) \<noteq> None"
    by (simp add: path_id_samples users_seeded)
  note eq = updateUserHandler_present [where dec = sample_Decode and r = put_empty_1
      and w = new_ResponseWriter and store = seeded_store, OF decode_put_empty_1 p]
  show ?thesis
    by (simp add: eq decode_put_empty_1 code_Encode code_new path_id_samples users_seeded)
      (simp add: zero_User_def)
qed

text \<open>
  C8. As amended: of the handlers that read a body, the create handler checks that
  identifier, name and email are non-empty before it touches the store (400 and the store
  unchanged otherwise); the update handler checks nothing of the decoded record: with a
  decodable body it answers 200 and stores the record when the identifier of the path is
  stored, 404 with the store unchanged when it is not, whatever the name and email are;
  it answers 400 exactly when the body does not decode, and then the store is unchanged.
\<close>

theorem body_handlers_validation:
  assumes "code w = None"
  shows "(dec (Body r) zero_User = Inr user \<and> (ID user = [] \<or> Name user = [] \<or> Email user = []) \<longrightarrow>
            code (fst (createUserHandler dec r (w, store))) = Some StatusBadRequest \<and>
            snd (createUserHandler dec r (w, store)) = store)
       \<and> (dec (Body r) zero_User = Inr user \<and> users store (path_id r) \<noteq> None \<longrightarrow>
            code (fst (updateUserHandler dec r (w, store))) = Some StatusOK \<and>
            users (snd (updateUserHandler dec r (w, store))) (path_id r)
              = Some (user\<lparr>ID := path_id r\<rparr>))
       \<and> (dec (Body r) zero_User = Inr user \<and> users store (path_id r) = None \<longrightarrow>
            code (fst (updateUserHandler dec r (w, store))) = Some StatusNotFound \<and>
            snd (updateUserHandler dec r (w, store)) = store)
       \<and> (code (fst (updateUserHandler dec r (w, store))) = Some StatusBadRequest
            \<longleftrightarrow> isl (dec (Body r) zero_User))
       \<and> (isl (dec (Body r) zero_User) \<longrightarrow> snd (updateUserHandler dec r (w, store)) = store)"
proof (intro conjI impI)
  assume h: "dec (Body r) zero_User = Inr user \<and> (ID user = [] \<or> Name user = [] \<or> Email user = [])"
  then have eq: "createUserHandler dec r (w, store)
      = (http_Error ''ID, Name, and Email are required'' StatusBadRequest w, store)"
    by (auto simp: createUserHandler_def)
  show "code (fst (createUserHandler dec r (w, store))) = Some StatusBadRequest"
    by (simp add: eq code_http_Error assms)
  show "snd (createUserHandler dec r (w, store)) = store"
    by (simp add: eq)
next
  assume h: "dec (Body r) zero_User = Inr user \<and> users store (path_id r) \<noteq> None"
  note eq = updateUserHandler_present [where dec = dec and r = r and w = w,
      OF conjunct1 [OF h] conjunct2 [OF h]]
  show "code (fst (updateUserHandler dec r (w, store))) = Some StatusOK"
    by (simp add: eq code_Encode assms)
  show "users (snd (updateUserHandler dec r (w, store))) (path_id r)
      = Some (user\<lparr>ID := path_id r\<rparr>)"
    by (simp add: eq)
next
  assume h: "dec (Body r) zero_User = Inr user \<and> users store (path_id r) = None"
  note eq = updateUserHandler_absent [where dec = dec and r = r and w = w,
      OF conjunct1 [OF h] conjunct2 [OF h]]
  show "code (fst (updateUserHandler dec r (w, store))) = Some StatusNotFound"
    by (simp add: eq code_http_Error assms)
  show "snd (updateUserHandler dec r (w, store)) = store"
    by (simp add: eq)
next
  show "code (fst (updateUserHandler dec r (w, store))) = Some StatusBadRequest
      \<longleftrightarrow> isl (dec (Body r) zero_User)"
  proof (cases "dec (Body r) zero_User")
    case (Inl err)
    then show ?thesis
      by (simp add: updateUserHandler_undecodable [where dec = dec and r = r, OF Inl]
          code_http_Error assms)
  next
    case (Inr decoded)
    show ?thesis
    proof (cases "users store (path_id r) = None")
      case True
      show ?thesis
        by (simp add: updateUserHandler_absent [where dec = dec and r = r, OF Inr True]
            code_http_Error assms Inr)
    next
      case False
      show ?thesis
        by (simp add: updateUserHandler_present [where dec = dec and r = r, OF Inr False]
            code_Encode assms Inr)
    qed
  qed
next
  assume "isl (dec (Body r) zero_User)"
  then obtain err where "dec (Body r) zero_User = Inl err"
    by (cases "dec (Body r) zero_User") simp_all
  then show "snd (updateUserHandler dec r (w, store)) = store"
    by (simp add: updateUserHandler_undecodable [where dec = dec and r = r])
qed

theorem body_handlers_validation_witness:
  "code new_ResponseWriter = None \<and>
   sample_Decode (Body post_bob) zero_User = Inr \<lparr>ID = ''9'', Name = ''Bob'', Email = []\<rparr> \<and>
   code (fst (createUserHandler sample_Decode post_bob (new_ResponseWriter, seeded_store)))
     = Some StatusBadRequest \<and>
   snd (createUserHandler sample_Decode post_bob (new_ResponseWriter, seeded_store)) = seeded_store \<and>
   sample_Decode (Body put_bob_1) zero_User = Inr \<lparr>ID = ''9'', Name = ''Bob'', Email = []\<rparr> \<and>
   users seeded_store (path_id put_bob_1) \<noteq> None \<and>
   code (fst (updateUserHandler sample_Decode put_bob_1 (new_ResponseWriter, seeded_store)))
     = Some StatusOK \<and>
   users (snd (updateUserHandler sample_Decode put_bob_1 (new_ResponseWriter, seeded_store))) ''1''
     = Some \<lparr>ID = ''1'', Name = ''Bob'', Email = []\<rparr> \<and>
   isl (sample_Decode (Body put_garbage_1) zero_User) \<and>
   code (fst (updateUserHandler sample_Decode put_garbage_1 (new_ResponseWriter, seeded_store)))
     = Some StatusBadRequest \<and>
   snd (updateUserHandler sample_Decode put_garbage_1 (new_ResponseWriter, seeded_store)) = seeded_store"
proof -
  have p: "users seeded_store (path_id put_bob_1) \<noteq> None"
    by (simp add: path_id_samples users_seeded)
  have g: "isl (sample_Decode (Body put_garbage_1) zero_User)"
    by (simp add: sample_Decode_def put_garbage_1_def)
  from body_handlers_validation [OF code_new, of sample_Decode post_bob
      "\<lparr>ID = ''9'', Name = ''Bob'', Email = []\<rparr>" seeded_store] decode_bob
  have c: "code (fst (createUserHandler sample_Decode post_bob (new_ResponseWriter, seeded_store)))
      = Some StatusBadRequest \<and>
    snd (createUserHandler sample_Decode post_bob (new_ResponseWriter, seeded_store)) = seeded_store"
    by simp
  from body_handlers_validation [OF code_new, of sample_Decode put_bob_1
      "\<lparr>ID = ''9'', Name = ''Bob'', Email = []\<rparr>" seeded_store] decode_put_bob_1 p
  have u: "code (fst (updateUserHandler sample_Decode put_bob_1 (new_ResponseWriter, seeded_store)))
      = Some StatusOK \<and>
    users (snd (updateUserHandler sample_Decode put_bob_1 (new_ResponseWriter, seeded_store))) ''1''
      = Some \<lparr>ID = ''1'', Name = ''Bob'', Email = []\<rparr>"
    by (simp add: path_id_samples)
  from body_handlers_validation [OF code_new, of sample_Decode put_garbage_1
      "\<lparr>ID = ''9'', Name = ''Bob'', Email = []\<rparr>" seeded_store] g
  have e: "code (fst (updateUserHandler sample_Decode put_garbage_1 (new_ResponseWriter, seeded_store)))
      = Some StatusBadRequest \<and>
    snd (updateUserHandler sample_Decode put_garbage_1 (new_ResponseWriter, seeded_store)) = seeded_store"
    by simp
  from code_new decode_bob c decode_put_bob_1 p u g e
  show ?thesis by (intro conjI) (erule conjunct1 conjunct2 | assumption)+
qed

section \<open>CORS middleware\<close>

text \<open>
  C9. For every request the middleware sets the three cross-origin headers on the response
  writer before anything else: a request whose method is not OPTIONS reaches the next
  handler with them set, and the header sent by each handler of this service, run under
  the middleware, carries them. For every OPTIONS request, whatever its path and whatever
  the next handler is, the reply is status 200 with those headers and no body, and the
  store is the one before the request.
\<close>

theorem corsMiddleware_headers_and_preflight:
  "(Method r = ''OPTIONS'' \<longrightarrow>
      corsMiddleware next r (new_ResponseWriter, store)
        = (\<lparr>header = cors_headers, code = Some StatusOK, sent_header = cors_headers, body = []\<rparr>,
           store))
   \<and> (Method r \<noteq> ''OPTIONS'' \<longrightarrow>
      corsMiddleware next r (w, store) = next r (w\<lparr>header := header w ++ cors_headers\<rparr>, store))
   \<and> cors_headers \<subseteq>\<^sub>m header (w\<lparr>header := header w ++ cors_headers\<rparr>)
   \<and> cors_headers \<subseteq>\<^sub>m
        sent_header (finish (fst (corsMiddleware healthCheckHandler r (new_ResponseWriter, store))))
   \<and> cors_headers \<subseteq>\<^sub>m
        sent_header (finish (fst (corsMiddleware (createUserHandler dec) r (new_ResponseWriter, store))))
   \<and> cors_headers \<subseteq>\<^sub>m
        sent_header (finish (fst (corsMiddleware getUserHandler r (new_ResponseWriter, store))))
   \<and> cors_headers \<subseteq>\<^sub>m
        sent_header (finish (fst (corsMiddleware (getAllUsersHandler ks) r (new_ResponseWriter, store))))
   \<and> cors_headers \<subseteq>\<^sub>m
        sent_header (finish (fst (corsMiddleware (updateUserHandler dec) r (new_ResponseWriter, store))))
   \<and> cors_headers \<subseteq>\<^sub>m
        sent_header (finish (fst (corsMiddleware deleteUserHandler r (new_ResponseWriter, store))))"
proof (intro conjI impI)
  assume "Method r = ''OPTIONS''"
  then show "corsMiddleware next r (new_ResponseWriter, store)
        = (\<lparr>header = cors_headers, code = Some StatusOK, sent_header = cors_headers, body = []\<rparr>,
           store)"
    by (simp add: corsMiddleware_eq WriteHeader_def new_ResponseWriter_def)
next
  assume "Method r \<noteq> ''OPTIONS''"
  then show "corsMiddleware next r (w, store) = next r (w\<lparr>header := header w ++ cors_headers\<rparr>, store)"
    by (simp add: corsMiddleware_eq)
next
  show "cors_headers \<subseteq>\<^sub>m header (w\<lparr>header := header w ++ cors_headers\<rparr>)"
    by (simp add: map_le_def cors_in_header)
qed (rule cors_kept [OF _ code_new], rule keeps_health keeps_create keeps_get keeps_getAll
      keeps_update keeps_delete)+

theorem corsMiddleware_headers_and_preflight_witness:
  "Method options_users = ''OPTIONS'' \<and> Method put_bob_1 \<noteq> ''OPTIONS'' \<and>
   corsMiddleware deleteUserHandler options_users (new_ResponseWriter, seeded_store)
     = (\<lparr>header = cors_headers, code = Some StatusOK, sent_header = cors_headers, body = []\<rparr>,
        seeded_store) \<and>
   corsMiddleware (updateUserHandler sample_Decode) put_bob_1 (new_ResponseWriter, seeded_store)
     = updateUserHandler sample_Decode put_bob_1
         (new_ResponseWriter\<lparr>header := header new_ResponseWriter ++ cors_headers\<rparr>, seeded_store) \<and>
   sent_header (finish (fst (corsMiddleware (updateUserHandler sample_Decode) put_bob_1
     (new_ResponseWriter, seeded_store)))) ''Access-Control-Allow-Origin'' = Some ''*''"
proof -
  have o: "Method options_users = ''OPTIONS''" and n: "Method put_bob_1 \<noteq> ''OPTIONS''"
    by (simp_all add: options_users_def put_bob_1_def)
  have k: "''Access-Control-Allow-Origin'' \<in> dom cors_headers"
    and v: "cors_headers ''Access-Control-Allow-Origin'' = Some ''*''"
    by (simp_all add: cors_headers_def)
  note t1 = corsMiddleware_headers_and_preflight [of options_users deleteUserHandler seeded_store]
  note t2 = corsMiddleware_headers_and_preflight [of put_bob_1 "updateUserHandler sample_Decode"
      seeded_store new_ResponseWriter sample_Decode]
  from t1 o have a: "corsMiddleware deleteUserHandler options_users (new_ResponseWriter, seeded_store)
     = (\<lparr>header = cors_headers, code = Some StatusOK, sent_header = cors_headers, body = []\<rparr>,
        seeded_store)"
    by blast
  from t2 n have b: "corsMiddleware (updateUserHandler sample_Decode) put_bob_1 (new_ResponseWriter, seeded_store)
     = updateUserHandler sample_Decode put_bob_1
         (new_ResponseWriter\<lparr>header := header new_ResponseWriter ++ cors_headers\<rparr>, seeded_store)"
    by blast
  from t2 have "cors_headers \<subseteq>\<^sub>m sent_header (finish (fst
      (corsMiddleware (updateUserHandler sample_Decode) put_bob_1 (new_ResponseWriter, seeded_store))))"
    by blast
  then have "cors_headers ''Access-Control-Allow-Origin''
      = sent_header (finish (fst (corsMiddleware (updateUserHandler sample_Decode) put_bob_1
          (new_ResponseWriter, seeded_store)))) ''Access-Control-Allow-Origin''"
    unfolding map_le_def using k by (rule bspec)
  with v
  have c: "sent_header (finish (fst (corsMiddleware (updateUserHandler sample_Decode) put_bob_1
     (new_ResponseWriter, seeded_store)))) ''Access-Control-Allow-Origin'' = Some ''*''"
    by simp
  from o n a b c show ?thesis by (intro conjI)
qed

end
